theory Spec2Isabelle
  imports Complex_Main "HOL-Library.Multiset" "HOL-Library.Sublist"
begin

section \<open>Data model\<close>

text \<open>
  A product as the catalog service delivers it and as \<open>App.js\<close> reads it
  (\<open>product.id\<close>, \<open>product.title\<close>, \<open>product.category\<close>, \<open>product.price\<close>,
  \<open>product.stock\<close>, \<open>product.thumbnail\<close>).  Identifiers, stock and quantities are whole
  numbers and are modelled as \<open>int\<close>.  A price is a \<open>rat\<close>: the value of the binary64
  number that JavaScript holds (a rational that is not such a number stands for the
  nearest one, which is what reading its decimal gives).  The sign of a difference of
  two such numbers is not changed by rounding; their products and sums are rounded, and
  the totals below round as binary64 arithmetic does.  The field \<open>id\<close> is written \<open>id'\<close>, since \<open>id\<close> is the
  identity function of HOL.
\<close>

record product =
  id' :: int
  title :: string
  category :: string
  price :: rat
  stock :: int
  thumbnail :: string

text \<open>
  A cart line is the object \<open>{ ...product, quantity: 1 }\<close>: every field of the product,
  copied when the product is first added, and a quantity.
\<close>

record cart_item = product +
  quantity :: int

type_synonym cart = "cart_item list"

section \<open>Filter and sort logic\<close>

text \<open>
  \<open>String.prototype.toLowerCase\<close>, on the ASCII letters; every other character is
  left as it is.
\<close>

definition toLowerCase_char :: "char \<Rightarrow> char" where
  "toLowerCase_char c =
     (case map_of (zip ''ABCDEFGHIJKLMNOPQRSTUVWXYZ'' ''abcdefghijklmnopqrstuvwxyz'') c of
        Some l \<Rightarrow> l
      | None \<Rightarrow> c)"

definition toLowerCase :: "string \<Rightarrow> string" where
  "toLowerCase s = map toLowerCase_char s"

text \<open>
  \<open>s.includes(searchString)\<close>: the search string occurs in \<open>s\<close> at some position, as a
  literal run of characters (\<open>includes\<close> is a keyword of Isabelle, hence the prime).
\<close>

fun includes' :: "string \<Rightarrow> string \<Rightarrow> bool" where
  "includes' [] searchString = (searchString = [])"
| "includes' (c # cs) searchString =
     (prefix searchString (c # cs) \<or> includes' cs searchString)"

text \<open>
  \<open>Array.prototype.sort(compareFn)\<close>.  ECMAScript requires the sort to be stable and to
  place \<open>a\<close> before \<open>b\<close> when \<open>compareFn(a, b) < 0\<close>; for a consistent comparator this
  fixes the result, which is computed here by stable insertion: each element goes in
  front of the first later element that does not compare below it.
\<close>

fun insort_cmp :: "('a \<Rightarrow> 'a \<Rightarrow> rat) \<Rightarrow> 'a \<Rightarrow> 'a list \<Rightarrow> 'a list" where
  "insort_cmp compareFn x [] = [x]"
| "insort_cmp compareFn x (y # ys) =
     (if compareFn x y \<le> 0 then x # y # ys else y # insort_cmp compareFn x ys)"

definition sort_cmp :: "('a \<Rightarrow> 'a \<Rightarrow> rat) \<Rightarrow> 'a list \<Rightarrow> 'a list" where
  "sort_cmp compareFn xs = foldr (insort_cmp compareFn) xs []"

text \<open>
  The memoised list \<open>filteredProducts\<close>, as a function of its four dependencies.  The
  sort order is the string of the select box: \<open>''low''\<close>, \<open>''high''\<close> or anything else
  (the empty string initially), for which the comparator returns 0.
\<close>

definition filteredProducts ::
  "product list \<Rightarrow> string \<Rightarrow> string \<Rightarrow> string \<Rightarrow> product list" where
  "filteredProducts products debouncedSearch selectedCategory sortOrder =
     sort_cmp (\<lambda>a b. if sortOrder = ''low'' then price a - price b
                      else if sortOrder = ''high'' then price b - price a
                      else 0)
       (filter (\<lambda>p. selectedCategory = ''all'' \<or> category p = selectedCategory)
          (filter (\<lambda>p. includes' (toLowerCase (title p)) (toLowerCase debouncedSearch))
             products))"

text \<open>The list after the two \<open>filter\<close> calls and before the sort.\<close>

abbreviation matching :: "product list \<Rightarrow> string \<Rightarrow> string \<Rightarrow> product list" where
  "matching products debouncedSearch selectedCategory \<equiv>
     filter (\<lambda>p. selectedCategory = ''all'' \<or> category p = selectedCategory)
       (filter (\<lambda>p. includes' (toLowerCase (title p)) (toLowerCase debouncedSearch))
          products)"

text \<open>
  A JavaScript \<open>Set\<close> keeps its elements in insertion order and ignores the insertion of
  an element it already holds; \<open>new Set(xs)\<close> adds the elements of \<open>xs\<close> from left to
  right, and spreading the set lists them in that order.
\<close>

definition Set_add :: "'a list \<Rightarrow> 'a \<Rightarrow> 'a list" where
  "Set_add s x = (if x \<in> set s then s else s @ [x])"

definition new_Set :: "'a list \<Rightarrow> 'a list" where
  "new_Set xs = foldl Set_add [] xs"

definition categories :: "product list \<Rightarrow> string list" where
  "categories products = ''all'' # new_Set (map category products)"

section \<open>Cart handlers\<close>

text \<open>
  The handlers update the React state with \<open>setCart (prev \<Rightarrow> ...)\<close>; here the previous
  cart is an argument and the next cart is the result.  A handler that returns without
  calling \<open>setCart\<close> leaves the cart as it is.
\<close>

definition addToCart :: "cart \<Rightarrow> product \<Rightarrow> cart" where
  "addToCart prevCart product =
     (case find (\<lambda>item. id' item = id' product) prevCart of
        Some existing \<Rightarrow>
          if quantity existing < stock product
          then map (\<lambda>item. if id' item = id' product
                              then item\<lparr>quantity := quantity item + 1\<rparr>
                              else item) prevCart
          else prevCart
      | None \<Rightarrow>
          prevCart @ [\<lparr>id' = id' product, title = title product,
                        category = category product, price = price product,
                        stock = stock product, thumbnail = thumbnail product,
                        quantity = 1\<rparr>])"

definition removeFromCart :: "cart \<Rightarrow> int \<Rightarrow> cart" where
  "removeFromCart prev i = filter (\<lambda>item. id' item \<noteq> i) prev"

definition updateQuantity :: "cart \<Rightarrow> int \<Rightarrow> int \<Rightarrow> int \<Rightarrow> cart" where
  "updateQuantity prev i newQty maxStock =
     (if newQty < 1 \<or> newQty > maxStock then prev
      else map (\<lambda>item. if id' item = i then item\<lparr>quantity := newQty\<rparr> else item) prev)"

section \<open>JavaScript numbers\<close>

text \<open>
  A JavaScript number is an IEEE 754 binary64 value: a rational \<open>m * 2 ^ e\<close> with
  \<open>\<bar>m\<bar> < 2 ^ 53\<close> and \<open>- 1074 \<le> e \<le> 971\<close>, one of the two infinities, or \<open>NaN\<close>.  The two
  zeros are not told apart: no operation below depends on the sign of a zero.
\<close>

datatype double = Finite rat | PosInfinity | NegInfinity | NaN

definition pow2 :: "int \<Rightarrow> rat" where
  "pow2 k = (if 0 \<le> k then 2 ^ nat k else 1 / 2 ^ nat (- k))"

text \<open>The number of binary digits of a positive integer.\<close>

function bit_length :: "int \<Rightarrow> int" where
  "bit_length n = (if n \<le> 0 then 0 else 1 + bit_length (n div 2))"
  by auto
termination
  by (relation "measure nat") auto

text \<open>For a positive rational \<open>x\<close>, the integer \<open>k\<close> with \<open>2 ^ k \<le> x < 2 ^ (k + 1)\<close>.\<close>

definition floor_log2 :: "rat \<Rightarrow> int" where
  "floor_log2 x =
     (let (n, d) = quotient_of x;
          k = bit_length n - bit_length d
      in if pow2 k \<le> x then k else k - 1)"

definition round_half_even :: "rat \<Rightarrow> int" where
  "round_half_even y =
     (let f = \<lfloor>y\<rfloor>; r = y - of_int f
      in if r < 1 / 2 then f
         else if 1 / 2 < r then f + 1
         else if even f then f else f + 1)"

text \<open>
  Rounding to nearest, ties to even.  A positive rational is written with 53 significant
  binary digits (fewer below \<open>2 ^ - 1022\<close>, where the spacing stays \<open>2 ^ - 1074\<close>) and
  rounded to the nearest such number; a result of \<open>2 ^ 1024\<close> or more is the infinity.
\<close>

definition round_positive :: "rat \<Rightarrow> double" where
  "round_positive x =
     (let e = max (floor_log2 x - 52) (- 1074);
          m = round_half_even (x / pow2 e)
      in if 1024 < e + bit_length m then PosInfinity else Finite (of_int m * pow2 e))"

fun negate :: "double \<Rightarrow> double" where
  "negate (Finite a) = Finite (- a)"
| "negate PosInfinity = NegInfinity"
| "negate NegInfinity = PosInfinity"
| "negate NaN = NaN"

definition to_double :: "rat \<Rightarrow> double" where
  "to_double x =
     (if x = 0 then Finite 0
      else if 0 < x then round_positive x
      else negate (round_positive (- x)))"

text \<open>
  The operators \<open>+\<close> and \<open>*\<close> on numbers: the exact result of two finite operands,
  rounded; the rules of IEEE 754 for the infinities and \<open>NaN\<close>.
\<close>

fun add_double :: "double \<Rightarrow> double \<Rightarrow> double" where
  "add_double (Finite a) (Finite b) = to_double (a + b)"
| "add_double NaN y = NaN"
| "add_double x NaN = NaN"
| "add_double PosInfinity NegInfinity = NaN"
| "add_double NegInfinity PosInfinity = NaN"
| "add_double PosInfinity y = PosInfinity"
| "add_double x PosInfinity = PosInfinity"
| "add_double NegInfinity y = NegInfinity"
| "add_double x NegInfinity = NegInfinity"

fun mul_double :: "double \<Rightarrow> double \<Rightarrow> double" where
  "mul_double (Finite a) (Finite b) = to_double (a * b)"
| "mul_double NaN y = NaN"
| "mul_double x NaN = NaN"
| "mul_double (Finite a) y = (if a = 0 then NaN else if 0 < a then y else negate y)"
| "mul_double x (Finite b) = (if b = 0 then NaN else if 0 < b then x else negate x)"
| "mul_double PosInfinity PosInfinity = PosInfinity"
| "mul_double NegInfinity NegInfinity = PosInfinity"
| "mul_double PosInfinity NegInfinity = NegInfinity"
| "mul_double NegInfinity PosInfinity = NegInfinity"

text \<open>A rational that is a binary64 number: rounding leaves it as it is.\<close>

definition is_double :: "rat \<Rightarrow> bool" where
  "is_double x \<longleftrightarrow> to_double x = Finite x"

section \<open>Calculated totals\<close>

text \<open>
  \<open>cart.reduce((sum, item) => sum + item.quantity, 0)\<close> and
  \<open>cart.reduce((sum, item) => sum + (item.price * item.quantity), 0)\<close>.  The quantities are
  whole numbers and their sum is taken in \<open>int\<close>.  The total price is computed in
  binary64: the price and the quantity of a line are the numbers nearest to the fields,
  their product is rounded, and so is each addition to the running sum.
\<close>

definition totalItems :: "cart \<Rightarrow> int" where
  "totalItems cart = foldl (\<lambda>sum item. sum + quantity item) 0 cart"

definition totalPrice :: "cart \<Rightarrow> double" where
  "totalPrice cart =
     foldl (\<lambda>sum item.
              add_double sum
                (mul_double (to_double (price item)) (to_double (of_int (quantity item)))))
       (Finite 0) cart"

section \<open>Cart state restored at startup\<close>

text \<open>
  The cart state is initialised from local storage:
  \<open>const saved = localStorage.getItem(key); return saved ? JSON.parse(saved) : []\<close>.
  \<open>getItem\<close> returns \<open>null\<close> when the key is absent and the stored string otherwise, and
  \<open>JSON.parse\<close> throws a \<open>SyntaxError\<close> on a text that is not JSON.  Nothing catches it.
\<close>

datatype error = SyntaxError

text \<open>
  The value \<open>JSON.parse\<close> returns, as a tree.  Numbers and strings keep the text they
  were written with (a number is not converted to a double, an escape sequence in a
  string is checked and not decoded); an object keeps its members in the order read.
\<close>

datatype json =
    JNull
  | JBool bool
  | JNumber string
  | JString string
  | JArray "json list"
  | JObject "(string \<times> json) list"

subsection \<open>The JSON grammar: tokens\<close>

datatype token =
    LBrace | RBrace | LBracket | RBracket | Colon | Comma
  | TString string | TNumber string | TTrue | TFalse | TNull

definition is_ws :: "char \<Rightarrow> bool" where
  "is_ws c \<longleftrightarrow> c \<in> set [CHR '' '', CHR 0x09, CHR 0x0A, CHR 0x0D]"

definition is_digit :: "char \<Rightarrow> bool" where
  "is_digit c \<longleftrightarrow> c \<in> set ''0123456789''"

definition is_hex :: "char \<Rightarrow> bool" where
  "is_hex c \<longleftrightarrow> c \<in> set ''0123456789abcdefABCDEF''"

definition digits1 :: "string \<Rightarrow> bool" where
  "digits1 s \<longleftrightarrow> s \<noteq> [] \<and> list_all is_digit s"

definition valid_int :: "string \<Rightarrow> bool" where
  "valid_int s \<longleftrightarrow> s = ''0'' \<or> (digits1 s \<and> hd s \<noteq> CHR ''0'')"

definition strip_sign :: "string \<Rightarrow> string \<Rightarrow> string" where
  "strip_sign signs s =
     (case s of [] \<Rightarrow> [] | c # cs \<Rightarrow> if c \<in> set signs then cs else s)"

text \<open>
  A JSON number: an optional minus sign, \<open>0\<close> or digits that do not start with \<open>0\<close>,
  an optional fraction of a point and digits, an optional exponent of \<open>e\<close> or \<open>E\<close>, an
  optional sign and digits.
\<close>

definition valid_number :: "string \<Rightarrow> bool" where
  "valid_number s =
     (let unsigned = strip_sign ''-'' s;
          mantissa = takeWhile (\<lambda>c. c \<notin> set ''eE'') unsigned;
          exponent = dropWhile (\<lambda>c. c \<notin> set ''eE'') unsigned;
          integer = takeWhile (\<lambda>c. c \<noteq> CHR ''.'') mantissa;
          fraction = dropWhile (\<lambda>c. c \<noteq> CHR ''.'') mantissa
      in valid_int integer
         \<and> (fraction = [] \<or> digits1 (tl fraction))
         \<and> (exponent = [] \<or> digits1 (strip_sign ''+-'' (tl exponent))))"

text \<open>
  The tokeniser reads one character at a time.  Its mode says what it is inside of: nothing,
  a string (with the characters read so far, latest first), an escape sequence after a
  backslash, the four hexadecimal digits of a unicode escape, one of the words \<open>true\<close>,
  \<open>false\<close>, \<open>null\<close> (with the letters still expected), or a number.
\<close>

datatype mode =
    Start
  | Str string
  | Esc string
  | Hex nat string
  | Lit string token
  | Num string

definition punctuation :: "char \<Rightarrow> token option" where
  "punctuation = map_of [(CHR ''{'', LBrace), (CHR ''}'', RBrace), (CHR ''['', LBracket),
                         (CHR '']'', RBracket), (CHR '':'', Colon), (CHR '','', Comma)]"

definition literal :: "char \<Rightarrow> (string \<times> token) option" where
  "literal = map_of [(CHR ''t'', (''rue'', TTrue)), (CHR ''f'', (''alse'', TFalse)),
                     (CHR ''n'', (''ull'', TNull))]"

definition start :: "char \<Rightarrow> (token list \<times> mode) option" where
  "start c =
     (if is_ws c then Some ([], Start)
      else case punctuation c of
        Some t \<Rightarrow> Some ([t], Start)
      | None \<Rightarrow>
          if c = CHR 0x22 then Some ([], Str [])
          else if c = CHR ''-'' \<or> is_digit c then Some ([], Num [c])
          else case literal c of
            Some (expected, t) \<Rightarrow> Some ([], Lit expected t)
          | None \<Rightarrow> None)"

fun lex :: "mode \<Rightarrow> string \<Rightarrow> token list option" where
  "lex Start [] = Some []"
| "lex (Num acc) [] = (if valid_number (rev acc) then Some [TNumber (rev acc)] else None)"
| "lex (Str acc) [] = None"
| "lex (Esc acc) [] = None"
| "lex (Hex n acc) [] = None"
| "lex (Lit expected t) [] = None"
| "lex Start (c # cs) =
     (case start c of
        None \<Rightarrow> None
      | Some (ts, m) \<Rightarrow> map_option (append ts) (lex m cs))"
| "lex (Str acc) (c # cs) =
     (if c = CHR 0x22 then map_option (Cons (TString (rev acc))) (lex Start cs)
      else if c = CHR 0x5C then lex (Esc (c # acc)) cs
      else if (of_char c :: nat) < 0x20 then None
      else lex (Str (c # acc)) cs)"
| "lex (Esc acc) (c # cs) =
     (if c \<in> set [CHR 0x22, CHR 0x5C, CHR ''/'', CHR ''b'', CHR ''f'', CHR ''n'', CHR ''r'', CHR ''t'']
      then lex (Str (c # acc)) cs
      else if c = CHR ''u'' then lex (Hex 4 (c # acc)) cs
      else None)"
| "lex (Hex n acc) (c # cs) =
     (if is_hex c
      then (if n \<le> 1 then lex (Str (c # acc)) cs else lex (Hex (n - 1) (c # acc)) cs)
      else None)"
| "lex (Lit expected t) (c # cs) =
     (case expected of
        [] \<Rightarrow> None
      | e # es \<Rightarrow>
          if c \<noteq> e then None
          else if es = [] then map_option (Cons t) (lex Start cs)
          else lex (Lit es t) cs)"
| "lex (Num acc) (c # cs) =
     (if c \<in> set ''0123456789+-.eE'' then lex (Num (c # acc)) cs
      else if valid_number (rev acc)
      then (case start c of
              None \<Rightarrow> None
            | Some (ts, m) \<Rightarrow> map_option (append (TNumber (rev acc) # ts)) (lex m cs))
      else None)"

subsection \<open>The JSON grammar: values\<close>

text \<open>
  The values are built from the tokens with a stack of the arrays and objects that are
  still open: an array with its elements so far, an object with its members so far, and
  an object whose next member has its key and waits for the value.
\<close>

datatype frame =
    FArray "json list"
  | FObject "(string \<times> json) list"
  | FField "(string \<times> json) list" string

datatype expect =
    ExpValue | ExpValueOrEnd | ExpKeyOrEnd | ExpKey | ExpColon | ExpCommaOrEnd
  | Finished json

fun complete :: "json \<Rightarrow> frame list \<Rightarrow> (expect \<times> frame list) option" where
  "complete v [] = Some (Finished v, [])"
| "complete v (FArray items # st) = Some (ExpCommaOrEnd, FArray (v # items) # st)"
| "complete v (FField pairs k # st) = Some (ExpCommaOrEnd, FObject ((k, v) # pairs) # st)"
| "complete v (FObject pairs # st) = None"

fun scalar :: "token \<Rightarrow> json option" where
  "scalar (TString s) = Some (JString s)"
| "scalar (TNumber s) = Some (JNumber s)"
| "scalar TTrue = Some (JBool True)"
| "scalar TFalse = Some (JBool False)"
| "scalar TNull = Some JNull"
| "scalar _ = None"

definition begin_value :: "frame list \<Rightarrow> token \<Rightarrow> (expect \<times> frame list) option" where
  "begin_value st t =
     (if t = LBracket then Some (ExpValueOrEnd, FArray [] # st)
      else if t = LBrace then Some (ExpKeyOrEnd, FObject [] # st)
      else case scalar t of Some v \<Rightarrow> complete v st | None \<Rightarrow> None)"

definition end_container :: "frame list \<Rightarrow> token \<Rightarrow> (expect \<times> frame list) option" where
  "end_container st t =
     (case (st, t) of
        (FArray items # st', RBracket) \<Rightarrow> complete (JArray (rev items)) st'
      | (FObject pairs # st', RBrace) \<Rightarrow> complete (JObject (rev pairs)) st'
      | _ \<Rightarrow> None)"

definition begin_key :: "frame list \<Rightarrow> token \<Rightarrow> (expect \<times> frame list) option" where
  "begin_key st t =
     (case (st, t) of
        (FObject pairs # st', TString k) \<Rightarrow> Some (ExpColon, FField pairs k # st')
      | _ \<Rightarrow> None)"

fun step :: "expect \<Rightarrow> frame list \<Rightarrow> token \<Rightarrow> (expect \<times> frame list) option" where
  "step ExpValue st t = begin_value st t"
| "step ExpValueOrEnd st t = (if t = RBracket then end_container st t else begin_value st t)"
| "step ExpKeyOrEnd st t = (if t = RBrace then end_container st t else begin_key st t)"
| "step ExpKey st t = begin_key st t"
| "step ExpColon st t = (if t = Colon then Some (ExpValue, st) else None)"
| "step ExpCommaOrEnd st t =
     (if t = Comma
      then (case st of
              FArray items # st' \<Rightarrow> Some (ExpValue, st)
            | FObject pairs # st' \<Rightarrow> Some (ExpKey, st)
            | _ \<Rightarrow> None)
      else end_container st t)"
| "step (Finished v) st t = None"

fun run :: "expect \<Rightarrow> frame list \<Rightarrow> token list \<Rightarrow> json option" where
  "run e st [] = (case e of Finished v \<Rightarrow> Some v | _ \<Rightarrow> None)"
| "run e st (t # ts) =
     (case step e st t of None \<Rightarrow> None | Some (e', st') \<Rightarrow> run e' st' ts)"

subsection \<open>The initial cart\<close>

text \<open>
  \<open>JSON.parse\<close> returns the value of the text or throws.  The initialiser returns the
  empty array when \<open>saved\<close> is \<open>null\<close> or the empty string (the two falsy results of
  \<open>getItem\<close>) and the parsed value otherwise; that value becomes the cart state as it is,
  whatever its shape.
\<close>

definition JSON_parse :: "string \<Rightarrow> error + json" where
  "JSON_parse text =
     (case lex Start text of
        None \<Rightarrow> Inl SyntaxError
      | Some ts \<Rightarrow>
          (case run ExpValue [] ts of None \<Rightarrow> Inl SyntaxError | Some v \<Rightarrow> Inr v))"

definition initialCart :: "string option \<Rightarrow> error + json" where
  "initialCart saved =
     (case saved of
        None \<Rightarrow> Inr (JArray [])
      | Some text \<Rightarrow> if text = [] then Inr (JArray []) else JSON_parse text)"

section \<open>The Cart invariant and example data\<close>

text \<open>
  The Cart invariant of the data model: the product ids of the lines are distinct, and
  the quantity of every line lies between 1 and the stock captured in that line.
\<close>

definition cart_inv :: "cart \<Rightarrow> bool" where
  "cart_inv K \<longleftrightarrow>
     distinct (map id' K) \<and> (\<forall>item\<in>set K. 1 \<le> quantity item \<and> quantity item \<le> stock item)"

text \<open>Products and cart lines for the scenarios.\<close>

definition redShirt :: product where
  "redShirt = \<lparr>id' = 1, title = ''Red Shirt'', category = ''clothing'', price = 10,
                stock = 2, thumbnail = ''''\<rparr>"

definition redShirtRestocked :: product where
  "redShirtRestocked = redShirt\<lparr>stock := 5\<rparr>"

definition redCap :: product where
  "redCap = \<lparr>id' = 2, title = ''Red Cap'', category = ''clothing'', price = 5,
              stock = 0, thumbnail = ''''\<rparr>"

definition blueJeans :: product where
  "blueJeans = \<lparr>id' = 3, title = ''Blue Jeans'', category = ''clothing'', price = 5,
                 stock = 4, thumbnail = ''''\<rparr>"

definition redLamp :: product where
  "redLamp = \<lparr>id' = 4, title = ''Infrared lamp'', category = ''home'', price = 10,
               stock = 1, thumbnail = ''''\<rparr>"

definition ex_catalog :: "product list" where
  "ex_catalog = [redShirt, blueJeans, redLamp, redCap]"

definition redShirtLine :: "int \<Rightarrow> cart_item" where
  "redShirtLine n = \<lparr>id' = 1, title = ''Red Shirt'', category = ''clothing'', price = 10,
                      stock = 2, thumbnail = '''', quantity = n\<rparr>"

definition blueJeansLine :: "int \<Rightarrow> cart_item" where
  "blueJeansLine n = \<lparr>id' = 3, title = ''Blue Jeans'', category = ''clothing'', price = 5,
                       stock = 4, thumbnail = '''', quantity = n\<rparr>"

text \<open>
  A line whose price is the binary64 number written \<open>0.1\<close>, and a line whose captured
  stock is negative.
\<close>

definition tenthLine :: "int \<Rightarrow> cart_item" where
  "tenthLine n = \<lparr>id' = 5, title = ''Red Button'', category = ''sewing'',
                   price = 3602879701896397 / 36028797018963968,
                   stock = 9, thumbnail = '''', quantity = n\<rparr>"

definition oversoldLine :: cart_item where
  "oversoldLine = \<lparr>id' = 6, title = ''Red Scarf'', category = ''clothing'', price = 7,
                    stock = - 1, thumbnail = '''', quantity = 1\<rparr>"

text \<open>The text that \<open>JSON.stringify\<close> stores for the cart holding two Red Shirts.\<close>

definition storedRedShirts :: string where
  \<open>storedRedShirts =
     ''[{"id":1,"title":"Red Shirt","category":"clothing","price":10,"stock":2,"thumbnail":"","quantity":2}]''\<close>

lemmas ex_defs = redShirt_def redShirtRestocked_def redCap_def blueJeans_def redLamp_def
  ex_catalog_def redShirtLine_def blueJeansLine_def tenthLine_def oversoldLine_def

section \<open>Totals\<close>

lemma foldl_plus_sum_list:
  fixes f :: "'a \<Rightarrow> 'b::comm_monoid_add"
  shows "foldl (\<lambda>sum item. sum + f item) a xs = a + sum_list (map f xs)"
  by (induction xs arbitrary: a) (simp_all add: add.assoc)

lemma totalPrice_snoc:
  "totalPrice (K @ [item]) =
     add_double (totalPrice K)
       (mul_double (to_double (price item)) (to_double (of_int (quantity item))))"
  by (simp add: totalPrice_def)

lemma fold_exact:
  fixes K :: cart
  assumes "\<forall>item\<in>set K. is_double (price item) \<and> is_double (of_int (quantity item))
                           \<and> is_double (price item * of_int (quantity item))"
    and "\<forall>P\<in>set (prefixes K).
           is_double (a + sum_list (map (\<lambda>item. price item * of_int (quantity item)) P))"
  shows "foldl (\<lambda>sum item.
                  add_double sum
                    (mul_double (to_double (price item)) (to_double (of_int (quantity item)))))
           (Finite a) K
         = Finite (a + sum_list (map (\<lambda>item. price item * of_int (quantity item)) K))"
  using assms
proof (induction K arbitrary: a)
  case Nil
  show ?case by simp
next
  case (Cons x xs)
  let ?t = "\<lambda>item :: cart_item. price item * of_int (quantity item)"
  from Cons.prems(1)
  have x: "to_double (price x) = Finite (price x)"
    "to_double (of_int (quantity x)) = Finite (of_int (quantity x))"
    "to_double (?t x) = Finite (?t x)"
    by (simp_all add: is_double_def)
  have "[x] \<in> set (prefixes (x # xs))"
    by simp
  with Cons.prems(2) have "is_double (a + sum_list (map ?t [x]))"
    by blast
  then have first: "to_double (a + ?t x) = Finite (a + ?t x)"
    by (simp add: is_double_def)
  have rest: "\<forall>P\<in>set (prefixes xs). is_double ((a + ?t x) + sum_list (map ?t P))"
  proof
    fix P assume "P \<in> set (prefixes xs)"
    then have "x # P \<in> set (prefixes (x # xs))"
      by simp
    with Cons.prems(2) have "is_double (a + sum_list (map ?t (x # P)))"
      by blast
    then show "is_double ((a + ?t x) + sum_list (map ?t P))"
      by (simp add: add.assoc)
  qed
  from Cons.prems(1) have items: "\<forall>item\<in>set xs. is_double (price item)
      \<and> is_double (of_int (quantity item)) \<and> is_double (?t item)"
    by simp
  show ?case
    using Cons.IH [OF items rest] by (simp add: x first add.assoc)
qed

text \<open>
  Claim C5, as amended.  The item count of a cart is the sum of the quantities of its
  lines, and both totals of the empty cart are 0.  The total price is accumulated in
  binary64: each line adds the rounded product of its price and quantity to the running
  total, and the addition is rounded.  No other rounding is applied, so the total price is
  the exact sum of price times quantity whenever the prices, the quantities, the products
  and the partial sums are all binary64 numbers.
\<close>

theorem totals_accumulate:
  "totalItems K = sum_list (map quantity K)
   \<and> totalItems [] = 0
   \<and> totalPrice [] = Finite 0
   \<and> totalPrice (K @ [item]) =
        add_double (totalPrice K)
          (mul_double (to_double (price item)) (to_double (of_int (quantity item))))
   \<and> ((\<forall>item\<in>set K. is_double (price item) \<and> is_double (of_int (quantity item))
                        \<and> is_double (price item * of_int (quantity item)))
        \<and> (\<forall>P\<in>set (prefixes K).
              is_double (sum_list (map (\<lambda>item. price item * of_int (quantity item)) P)))
       \<longrightarrow> totalPrice K
             = Finite (sum_list (map (\<lambda>item. price item * of_int (quantity item)) K)))"
proof -
  have "totalPrice K = Finite (sum_list (map (\<lambda>item. price item * of_int (quantity item)) K))"
    if "\<forall>item\<in>set K. is_double (price item) \<and> is_double (of_int (quantity item))
                           \<and> is_double (price item * of_int (quantity item))"
      and "\<forall>P\<in>set (prefixes K).
             is_double (sum_list (map (\<lambda>item. price item * of_int (quantity item)) P))"
    using fold_exact [of K 0] that by (simp add: totalPrice_def)
  then show ?thesis
    by (simp add: totalItems_def foldl_plus_sum_list totalPrice_snoc) (simp add: totalPrice_def)
qed

text \<open>
  Two Red Shirts at 10 and one pair of Blue Jeans at 5: every number involved is a
  binary64 number, and the total is 25.
\<close>

lemma small_doubles:
  "is_double 0" "is_double 1" "is_double 2" "is_double 5" "is_double 10" "is_double 20"
  "is_double 25"
  by (code_simp+)

theorem totals_accumulate_witness:
  "totalItems [redShirtLine 2, blueJeansLine 1] = 3
   \<and> totalPrice [redShirtLine 2, blueJeansLine 1] = Finite 25"
  using totals_accumulate [of "[redShirtLine 2, blueJeansLine 1]"]
  by (simp add: ex_defs small_doubles)

text \<open>
  Claim C5 as stated fails.  For three items at the price \<open>0.1\<close> (a binary64 number, as
  is the quantity) the code computes \<open>0.30000000000000004\<close>, which is not the sum of
  price times quantity: the product is rounded.
\<close>

lemma totalPrice_tenthLine:
  "totalPrice [tenthLine 3] = Finite (1351079888211149 / 4503599627370496)"
  by code_simp

lemma tenthLine_doubles: "is_double (price (tenthLine 3))" "is_double (of_int (quantity (tenthLine 3)))"
  by (code_simp+)

theorem totalPrice_rounds:
  "is_double (price (tenthLine 3))
   \<and> is_double (of_int (quantity (tenthLine 3)))
   \<and> totalPrice [tenthLine 3] = Finite (1351079888211149 / 4503599627370496)
   \<and> totalPrice [tenthLine 3]
       \<noteq> Finite (sum_list (map (\<lambda>item. price item * of_int (quantity item)) [tenthLine 3]))"
  using tenthLine_doubles
  by (simp add: totalPrice_tenthLine) (simp add: ex_defs)

section \<open>Cart operations\<close>

lemma find_id_None: "(\<forall>l\<in>set K. id' l \<noteq> i) \<Longrightarrow> find (\<lambda>item. id' item = i) K = None"
  by (simp add: find_None_iff)

lemma find_id_first:
  "\<forall>x\<in>set A. id' x \<noteq> i \<Longrightarrow> id' l = i \<Longrightarrow> find (\<lambda>item. id' item = i) (A @ l # B) = Some l"
  by (induction A) simp_all

lemma map_id_unchanged:
  "\<forall>x\<in>set A. id' x \<noteq> i \<Longrightarrow> map (\<lambda>item. if id' item = i then g item else item) A = A"
  by (induction A) simp_all

lemma distinct_split:
  "distinct (map id' (A @ l # B)) \<Longrightarrow> (\<forall>x\<in>set A. id' x \<noteq> id' l) \<and> (\<forall>x\<in>set B. id' x \<noteq> id' l)"
  by (force simp: image_iff)

lemma removeFromCart_inv: "cart_inv K \<Longrightarrow> cart_inv (removeFromCart K i)"
  by (simp add: cart_inv_def removeFromCart_def distinct_map_filter)

lemma map_quantity_ids:
  "id' \<circ> (\<lambda>item. if id' item = i then item\<lparr>quantity := g item\<rparr> else item) = id'"
  by (auto simp: fun_eq_iff)

lemma updateQuantity_inv_iff:
  assumes "cart_inv K"
  shows "cart_inv (updateQuantity K i q maxStock)
         \<longleftrightarrow> (\<forall>l\<in>set K. id' l = i \<and> 1 \<le> q \<and> q \<le> maxStock \<longrightarrow> q \<le> stock l)"
proof (cases "q < 1 \<or> maxStock < q")
  case True
  with assms show ?thesis by (auto simp: updateQuantity_def)
next
  case False
  have "(\<forall>x\<in>set K. P (if id' x = i then x\<lparr>quantity := q\<rparr> else x))
        \<longleftrightarrow> (\<forall>x\<in>set K. if id' x = i then P (x\<lparr>quantity := q\<rparr>) else P x)" for P
    by (rule ball_cong) simp_all
  with False assms show ?thesis
    by (simp add: updateQuantity_def cart_inv_def map_quantity_ids del: if_image_distrib)
qed

lemma addToCart_new:
  "\<forall>l\<in>set K. id' l \<noteq> id' P \<Longrightarrow>
   addToCart K P = K @ [\<lparr>id' = id' P, title = title P, category = category P,
                         price = price P, stock = stock P, thumbnail = thumbnail P,
                         quantity = 1\<rparr>]"
  by (simp add: addToCart_def find_id_None)

lemma addToCart_existing:
  assumes "distinct (map id' (A @ l # B))" and "id' l = id' P"
  shows "addToCart (A @ l # B) P =
           (if quantity l < stock P then A @ l\<lparr>quantity := quantity l + 1\<rparr> # B
            else A @ l # B)"
proof -
  from distinct_split [OF assms(1)] assms(2)
  have A: "\<forall>x\<in>set A. id' x \<noteq> id' P" and B: "\<forall>x\<in>set B. id' x \<noteq> id' P"
    by simp_all
  have "find (\<lambda>item. id' item = id' P) (A @ l # B) = Some l"
    using A assms(2) by (rule find_id_first)
  then show ?thesis
    using assms(2) by (simp add: addToCart_def map_id_unchanged [OF A] map_id_unchanged [OF B])
qed

lemma addToCart_inv_iff:
  assumes "cart_inv K"
  shows "cart_inv (addToCart K P) \<longleftrightarrow>
           (if \<exists>l\<in>set K. id' l = id' P
            then \<forall>l\<in>set K. id' l = id' P \<and> quantity l < stock P \<longrightarrow> quantity l < stock l
            else 1 \<le> stock P)"
proof (cases "\<exists>l\<in>set K. id' l = id' P")
  case False
  then have "\<forall>l\<in>set K. id' l \<noteq> id' P" by blast
  from addToCart_new [OF this] False assms show ?thesis
    by (auto simp: cart_inv_def)
next
  case True
  then obtain l where "l \<in> set K" and l: "id' l = id' P" by blast
  then obtain A B where K: "K = A @ l # B"
    by (auto simp: in_set_conv_decomp)
  from assms have d: "distinct (map id' (A @ l # B))"
    by (simp add: K cart_inv_def)
  from distinct_split [OF d] l
  have A: "\<forall>x\<in>set A. id' x \<noteq> id' P" and B: "\<forall>x\<in>set B. id' x \<noteq> id' P"
    by simp_all
  show ?thesis
    using assms A B l unfolding K addToCart_existing [OF d l] cart_inv_def
    by auto
qed

text \<open>
  Claim C1, as amended.  On a cart that satisfies the invariant, \<open>removeFromCart\<close>
  always returns a cart that satisfies it.  \<open>updateQuantity\<close> does so exactly when it
  does not store a quantity above the captured stock of the line with that id, which
  it can when the \<open>maxStock\<close> it is given is larger than that stock.  \<open>addToCart\<close>
  does so exactly when it neither creates a line for a product whose stock is below 1
  nor increments a line that has reached its captured stock, which it can when the
  stock of the product it is given is larger than the captured one.
\<close>

theorem cart_invariant_preserved:
  "cart_inv K \<Longrightarrow>
     cart_inv (removeFromCart K i)
   \<and> (cart_inv (updateQuantity K i q maxStock)
        \<longleftrightarrow> (\<forall>l\<in>set K. id' l = i \<and> 1 \<le> q \<and> q \<le> maxStock \<longrightarrow> q \<le> stock l))
   \<and> (cart_inv (addToCart K P)
        \<longleftrightarrow> (if \<exists>l\<in>set K. id' l = id' P
             then \<forall>l\<in>set K. id' l = id' P \<and> quantity l < stock P \<longrightarrow> quantity l < stock l
             else 1 \<le> stock P))"
  using removeFromCart_inv updateQuantity_inv_iff addToCart_inv_iff by blast

text \<open>The theorem at the cart holding one Red Shirt.\<close>

theorem cart_invariant_preserved_witness:
  "cart_inv [redShirtLine 1]
   \<and> cart_inv (removeFromCart [redShirtLine 1] 1)
   \<and> cart_inv (updateQuantity [redShirtLine 1] 1 2 2)
   \<and> cart_inv (addToCart [redShirtLine 1] redShirt)"
  using cart_invariant_preserved [of "[redShirtLine 1]" 1 2 2 redShirt]
  by (simp add: cart_inv_def ex_defs)

text \<open>
  Claim C1 as stated fails: adding a product whose stock is 0 to the empty cart creates
  a line of quantity 1; adding a product whose stock has grown to 5 increments a line
  that is at its captured stock of 2; and \<open>updateQuantity\<close> with \<open>maxStock = 5\<close> stores
  quantity 3 in that line.
\<close>

theorem cart_invariant_broken:
  "cart_inv [] \<and> \<not> cart_inv (addToCart [] redCap)
   \<and> cart_inv [redShirtLine 2]
   \<and> \<not> cart_inv (addToCart [redShirtLine 2] redShirtRestocked)
   \<and> \<not> cart_inv (updateQuantity [redShirtLine 2] 1 3 5)"
  by (simp add: cart_inv_def addToCart_def updateQuantity_def ex_defs)

text \<open>
  Claim C3, as amended.  If no line of the cart has the product's id, \<open>addToCart\<close>
  appends a line of quantity 1 holding a copy of the product's fields.  If the cart
  (with distinct ids) has a line with the product's id, that line's quantity is
  incremented by 1 when it is strictly below the stock of the product passed in, and the
  cart is returned unchanged otherwise.  The bound is \<open>product.stock\<close>, not the stock
  captured in the line; when the two agree (the catalog entry has not changed since the
  line was created) the bound is the captured stock.
\<close>

theorem addToCart_cases:
  "((\<forall>l\<in>set K. id' l \<noteq> id' P) \<longrightarrow>
      addToCart K P = K @ [\<lparr>id' = id' P, title = title P, category = category P,
                            price = price P, stock = stock P, thumbnail = thumbnail P,
                            quantity = 1\<rparr>])
   \<and> (K = A @ l # B \<and> id' l = id' P \<and> distinct (map id' K) \<longrightarrow>
        addToCart K P =
          (if quantity l < stock P then A @ l\<lparr>quantity := quantity l + 1\<rparr> # B else K))
   \<and> (K = A @ l # B \<and> id' l = id' P \<and> distinct (map id' K) \<and> stock P = stock l \<longrightarrow>
        addToCart K P =
          (if quantity l < stock l then A @ l\<lparr>quantity := quantity l + 1\<rparr> # B else K))"
proof -
  have "addToCart K P =
          (if quantity l < stock P then A @ l\<lparr>quantity := quantity l + 1\<rparr> # B else K)"
    if "K = A @ l # B" "id' l = id' P" "distinct (map id' K)"
    using that addToCart_existing [of A l B P] by simp
  then show ?thesis
    using addToCart_new [of K P] by auto
qed

text \<open>
  The scenario of the specification: adding the Red Shirt (stock 2) twice gives
  quantity 2, and a third add leaves the cart unchanged.
\<close>

theorem addToCart_cases_witness:
  "addToCart [] redShirt = [redShirtLine 1]
   \<and> addToCart [redShirtLine 1] redShirt = [redShirtLine 2]
   \<and> addToCart [redShirtLine 2] redShirt = [redShirtLine 2]"
  using addToCart_cases [of "[]" redShirt "[]" "redShirtLine 1" "[]"]
    addToCart_cases [of "[redShirtLine 1]" redShirt "[]" "redShirtLine 1" "[]"]
    addToCart_cases [of "[redShirtLine 2]" redShirt "[]" "redShirtLine 2" "[]"]
  by (simp add: ex_defs)

text \<open>
  Claim C3 as stated fails: a line at its captured stock ceiling of 2 is incremented to 3
  when the product passed in reports a stock of 5.
\<close>

theorem addToCart_ignores_captured_stock:
  "\<not> quantity (redShirtLine 2) < stock (redShirtLine 2)
   \<and> addToCart [redShirtLine 2] redShirtRestocked = [redShirtLine 3]
   \<and> addToCart [redShirtLine 2] redShirtRestocked \<noteq> [redShirtLine 2]"
  by (simp add: addToCart_def ex_defs)

text \<open>
  Claim C4, as amended.  \<open>updateQuantity\<close> returns the cart unchanged whenever the new
  quantity is below 1 or above the \<open>maxStock\<close> argument, and whenever no line has the
  given id.  Consequently, when \<open>maxStock\<close> does not exceed the captured stock of the
  line (the cart item component passes \<open>item.stock\<close>), every quantity outside 1 .. captured
  stock is a no-op.
\<close>

theorem updateQuantity_noop:
  "(q < 1 \<or> maxStock < q \<longrightarrow> updateQuantity K i q maxStock = K)
   \<and> ((\<forall>l\<in>set K. id' l \<noteq> i) \<longrightarrow> updateQuantity K i q maxStock = K)
   \<and> ((\<forall>l\<in>set K. id' l = i \<longrightarrow> maxStock \<le> stock l \<and> (q < 1 \<or> stock l < q)) \<longrightarrow>
        updateQuantity K i q maxStock = K)"
proof -
  have "updateQuantity K i q maxStock = K"
    if "\<forall>l\<in>set K. id' l = i \<longrightarrow> q < 1 \<or> maxStock < q"
    using that unfolding updateQuantity_def
    by (induction K) auto
  then show ?thesis
    by (fastforce simp: updateQuantity_def)
qed

text \<open>Quantity 0, quantity 3 against a ceiling of 2, and an absent id.\<close>

theorem updateQuantity_noop_witness:
  "updateQuantity [redShirtLine 1] 1 0 2 = [redShirtLine 1]
   \<and> updateQuantity [redShirtLine 1] 1 3 2 = [redShirtLine 1]
   \<and> updateQuantity [redShirtLine 1] 7 2 2 = [redShirtLine 1]"
  using updateQuantity_noop [of 0 2 "[redShirtLine 1]" 1]
    updateQuantity_noop [of 3 2 "[redShirtLine 1]" 1]
    updateQuantity_noop [of 2 2 "[redShirtLine 1]" 7]
  by (simp add: ex_defs)

text \<open>
  Claim C4 as stated fails: quantity 5 is above the line's captured stock of 2, yet with
  \<open>maxStock = 10\<close> it is stored.
\<close>

theorem updateQuantity_trusts_maxStock:
  "stock (redShirtLine 1) < 5
   \<and> updateQuantity [redShirtLine 1] 1 5 10 = [redShirtLine 5]
   \<and> updateQuantity [redShirtLine 1] 1 5 10 \<noteq> [redShirtLine 1]"
  by (simp add: updateQuantity_def ex_defs)




text \<open>
  Claim C7.  \<open>removeFromCart\<close> returns the cart with the line of the given id deleted and
  the lines before and after it unchanged, in their order, and a cart with no line of that
  id is returned with the same contents.  For any cart the result is a subsequence of the
  cart that holds exactly the lines with another id.
\<close>

theorem removeFromCart_deletes_line:
  "(K = A @ l # B \<and> id' l = i \<and> distinct (map id' K) \<longrightarrow> removeFromCart K i = A @ B)
   \<and> ((\<forall>x\<in>set K. id' x \<noteq> i) \<longrightarrow> removeFromCart K i = K)
   \<and> subseq (removeFromCart K i) K
   \<and> set (removeFromCart K i) = {x \<in> set K. id' x \<noteq> i}"
proof -
  have "removeFromCart (A @ l # B) (id' l) = A @ B" if "distinct (map id' (A @ l # B))"
    using distinct_split [OF that] by (simp add: removeFromCart_def)
  then show ?thesis
    by (auto simp: removeFromCart_def)
qed

text \<open>Removing the only line, and removing an id that is absent.\<close>

theorem removeFromCart_deletes_line_witness:
  "removeFromCart [redShirtLine 1] 1 = [] \<and> removeFromCart [redShirtLine 1] 7 = [redShirtLine 1]"
  using removeFromCart_deletes_line [of "[redShirtLine 1]" "[]" "redShirtLine 1" "[]" 1]
    removeFromCart_deletes_line [of "[redShirtLine 1]" "[]" "redShirtLine 1" "[]" 7]
  by (simp add: ex_defs)

section \<open>Filtering, sorting and the category list\<close>

lemma includes_sublist: "includes' s sub \<longleftrightarrow> sublist sub s"
  by (induction s) (simp_all add: sublist_Cons_right)

lemma insort_cmp_key:
  assumes "\<And>a b. compareFn a b \<le> 0 \<longleftrightarrow> f a \<le> f b"
  shows "insort_cmp compareFn x ys = insort_key f x ys"
  by (induction ys) (simp_all add: assms)

lemma sort_cmp_key:
  assumes "\<And>a b. compareFn a b \<le> 0 \<longleftrightarrow> f a \<le> f b"
  shows "sort_cmp compareFn xs = sort_key f xs"
proof -
  have "insort_cmp compareFn = insort_key f"
    using insort_cmp_key [of compareFn f, OF assms] by (intro ext)
  then show ?thesis
    by (simp add: sort_cmp_def sort_key_def)
qed

lemma filteredProducts_low:
  "filteredProducts C s c ''low'' = sort_key price (matching C s c)"
proof -
  have "sort_cmp (\<lambda>a b. price a - price b) xs = sort_key price xs" for xs :: "product list"
    by (rule sort_cmp_key) simp
  then show ?thesis
    by (simp add: filteredProducts_def)
qed

lemma filteredProducts_high:
  "filteredProducts C s c ''high'' = sort_key (\<lambda>p. - price p) (matching C s c)"
proof -
  have "sort_cmp (\<lambda>a b. price b - price a) xs = sort_key (\<lambda>p. - price p) xs"
    for xs :: "product list"
    by (rule sort_cmp_key) simp
  then show ?thesis
    by (simp add: filteredProducts_def)
qed

lemma filteredProducts_none:
  assumes "order \<noteq> ''low''" and "order \<noteq> ''high''"
  shows "filteredProducts C s c order = matching C s c"
proof -
  have "sort_cmp (\<lambda>a b. 0) xs = sort_key (\<lambda>p. 0 :: rat) xs" for xs :: "product list"
    by (rule sort_cmp_key) simp
  with assms show ?thesis
    by (simp add: filteredProducts_def sort_key_const)
qed

lemma filteredProducts_mset:
  "mset (filteredProducts C s c order) = mset (matching C s c)"
proof -
  consider "order = ''low''" | "order = ''high''" | "order \<noteq> ''low''" "order \<noteq> ''high''"
    by blast
  then show ?thesis
    by cases (simp_all add: filteredProducts_low filteredProducts_high filteredProducts_none)
qed

lemma filteredProducts_same_price:
  "filter (\<lambda>p. price p = v) (filteredProducts C s c order)
   = filter (\<lambda>p. price p = v) (matching C s c)"
proof -
  consider "order = ''low''" | "order = ''high''" | "order \<noteq> ''low''" "order \<noteq> ''high''"
    by blast
  then show ?thesis
  proof cases
    case 1
    then show ?thesis by (simp only: filteredProducts_low sort_key_stable)
  next
    case 2
    have "filter (\<lambda>p. - price p = - v) (sort_key (\<lambda>p. - price p) xs)
          = filter (\<lambda>p. - price p = - v) xs" for xs :: "product list"
      by (rule sort_key_stable)
    with 2 show ?thesis by (simp add: filteredProducts_high)
  next
    case 3
    then show ?thesis by (simp add: filteredProducts_none)
  qed
qed

lemma matching_subseq: "subseq (matching C s c) C"
  by simp

lemma matching_pred:
  "p \<in> set (matching C s c) \<Longrightarrow>
     sublist (toLowerCase s) (toLowerCase (title p)) \<and> (c = ''all'' \<or> category p = c)"
  by (simp add: includes_sublist)

text \<open>
  Claim C2, as amended.  For every catalog and filter state, the list \<open>filteredProducts\<close>
  returns is a rearrangement of a subsequence of the catalog, and a subsequence itself
  when no sort order is chosen: every returned product is a product of the catalog, and
  the returned products are exactly the products of the catalog that pass the two
  filters, each as often as the catalog has it.  The title of every returned product
  contains the search text once \<open>toLowerCase\<close> is applied to both, and its category is the
  selected one unless that is \<open>''all''\<close>.  With sort order \<open>''low''\<close> the prices ascend along
  the result, with \<open>''high''\<close> they descend.
\<close>

theorem filteredProducts_sound:
  "R = filteredProducts C s c order \<Longrightarrow>
     set R \<subseteq> set C
   \<and> (\<exists>S. subseq S C \<and> mset R = mset S)
   \<and> (\<forall>p\<in>set R. sublist (toLowerCase s) (toLowerCase (title p))
                  \<and> (c = ''all'' \<or> category p = c))
   \<and> (order = ''low'' \<longrightarrow> sorted_wrt (\<lambda>a b. price a \<le> price b) R)
   \<and> (order = ''high'' \<longrightarrow> sorted_wrt (\<lambda>a b. price b \<le> price a) R)
   \<and> (order \<noteq> ''low'' \<and> order \<noteq> ''high'' \<longrightarrow> subseq R C)
   \<and> mset R = mset (filter (\<lambda>p. sublist (toLowerCase s) (toLowerCase (title p))
                                  \<and> (c = ''all'' \<or> category p = c)) C)"
proof -
  assume R: "R = filteredProducts C s c order"
  have m: "mset R = mset (matching C s c)"
    unfolding R by (rule filteredProducts_mset)
  then have st: "set R = set (matching C s c)"
    by (rule mset_eq_setD)
  have 1: "set R \<subseteq> set C"
    unfolding st by auto
  have 2: "\<exists>S. subseq S C \<and> mset R = mset S"
    using m matching_subseq by blast
  have 3: "\<forall>p\<in>set R. sublist (toLowerCase s) (toLowerCase (title p))
                  \<and> (c = ''all'' \<or> category p = c)"
    unfolding st using matching_pred by blast
  have 4: "sorted_wrt (\<lambda>a b. price a \<le> price b) R" if "order = ''low''"
  proof -
    have "sorted (map price R)"
      unfolding R that filteredProducts_low by (rule sorted_sort_key)
    then show ?thesis by (simp add: sorted_map)
  qed
  have 5: "sorted_wrt (\<lambda>a b. price b \<le> price a) R" if "order = ''high''"
  proof -
    have "sorted (map (\<lambda>p. - price p) R)"
      unfolding R that filteredProducts_high by (rule sorted_sort_key)
    then show ?thesis by (simp add: sorted_map)
  qed
  have 6: "subseq R C" if "order \<noteq> ''low'' \<and> order \<noteq> ''high''"
    unfolding R using that matching_subseq by (simp add: filteredProducts_none)
  have "matching C s c = filter (\<lambda>p. sublist (toLowerCase s) (toLowerCase (title p))
                                  \<and> (c = ''all'' \<or> category p = c)) C"
    by (simp add: includes_sublist)
  with m have 7: "mset R = mset (filter (\<lambda>p. sublist (toLowerCase s) (toLowerCase (title p))
                                  \<and> (c = ''all'' \<or> category p = c)) C)"
    by (simp only:)
  from 1 2 3 4 5 6 7 show ?thesis by blast
qed

text \<open>
  Claim C8.  The sort is stable.  For every price, the returned products of that price are,
  in the order returned, the products of that price that pass the filters in catalog
  order, hence a subsequence of the catalog.  When the sort order is neither \<open>''low''\<close>
  nor \<open>''high''\<close> the result is the filtered list itself, which is a subsequence of the
  catalog.
\<close>

theorem filteredProducts_stable:
  "R = filteredProducts C s c order \<Longrightarrow>
     subseq (filter (\<lambda>p. price p = v) R) C
   \<and> filter (\<lambda>p. price p = v) R = filter (\<lambda>p. price p = v) (matching C s c)
   \<and> (order \<noteq> ''low'' \<and> order \<noteq> ''high'' \<longrightarrow> R = matching C s c \<and> subseq R C)"
proof -
  assume R: "R = filteredProducts C s c order"
  have 1: "filter (\<lambda>p. price p = v) R = filter (\<lambda>p. price p = v) (matching C s c)"
    unfolding R by (rule filteredProducts_same_price)
  have "subseq (filter (\<lambda>p. price p = v) (matching C s c)) (matching C s c)"
    by (rule subseq_filter_left)
  then have 2: "subseq (filter (\<lambda>p. price p = v) R) C"
    unfolding 1 using matching_subseq by (rule subseq_order.trans)
  have 3: "R = matching C s c \<and> subseq R C" if "order \<noteq> ''low'' \<and> order \<noteq> ''high''"
    unfolding R using that matching_subseq by (simp add: filteredProducts_none)
  from 1 2 3 show ?thesis by blast
qed

text \<open>
  Scenario: the search \<open>red\<close> over the example catalog, sorted from low to high price.
\<close>

lemma filteredProducts_red_low:
  "filteredProducts ex_catalog ''red'' ''all'' ''low'' = [redCap, redShirt, redLamp]"
  by code_simp

theorem filteredProducts_sound_witness:
  "filteredProducts ex_catalog ''red'' ''all'' ''low'' = [redCap, redShirt, redLamp]
   \<and> set [redCap, redShirt, redLamp] \<subseteq> set ex_catalog
   \<and> sorted_wrt (\<lambda>a b. price a \<le> price b) [redCap, redShirt, redLamp]"
  using filteredProducts_sound [OF refl, of ex_catalog "''red''" "''all''" "''low''"]
  by (simp add: filteredProducts_red_low)

text \<open>
  Claim C2 as stated fails: the result is not a subsequence of the catalog when the sort
  reorders it.  The search \<open>red\<close> from low to high price returns the Red Cap, the last
  product of the example catalog, first.
\<close>

theorem filteredProducts_reorders:
  "filteredProducts ex_catalog ''red'' ''all'' ''low'' = [redCap, redShirt, redLamp]
   \<and> \<not> subseq (filteredProducts ex_catalog ''red'' ''all'' ''low'') ex_catalog"
  by (simp add: filteredProducts_red_low) (simp add: ex_defs)

lemma filteredProducts_all_high:
  "filteredProducts ex_catalog '''' ''all'' ''high'' = [redShirt, redLamp, blueJeans, redCap]"
  by code_simp

lemma filteredProducts_all_unsorted:
  "filteredProducts ex_catalog '''' ''all'' '''' = ex_catalog"
  by code_simp

text \<open>
  From high to low price over the whole example catalog: the two products at price 10
  and the two at price 5 keep their catalog order; with no sort order the catalog is
  returned as it is.
\<close>

theorem filteredProducts_stable_witness:
  "filteredProducts ex_catalog '''' ''all'' ''high'' = [redShirt, redLamp, blueJeans, redCap]
   \<and> subseq [redShirt, redLamp] ex_catalog
   \<and> filteredProducts ex_catalog '''' ''all'' '''' = ex_catalog
   \<and> subseq (filteredProducts ex_catalog '''' ''all'' '''') ex_catalog"
proof -
  have ties:
    "filter (\<lambda>p. price p = 10) [redShirt, redLamp, blueJeans, redCap] = [redShirt, redLamp]"
    by (simp add: ex_defs)
  have "subseq (filter (\<lambda>p. price p = 10) (filteredProducts ex_catalog '''' ''all'' ''high''))
          ex_catalog"
    using filteredProducts_stable [OF refl, of 10 ex_catalog "''''" "''all''" "''high''"]
    by (rule conjunct1)
  then have 1: "subseq [redShirt, redLamp] ex_catalog"
    by (simp only: filteredProducts_all_high ties)
  have 2: "subseq (filteredProducts ex_catalog '''' ''all'' '''') ex_catalog"
    using filteredProducts_stable [OF refl, of 5 ex_catalog "''''" "''all''" "''''"]
    by simp
  from 1 2 show ?thesis
    by (simp add: filteredProducts_all_high filteredProducts_all_unsorted)
qed

lemma new_Set_snoc: "new_Set (xs @ [x]) = Set_add (new_Set xs) x"
  by (simp add: new_Set_def)

lemma set_new_Set: "set (new_Set xs) = set xs"
  by (induction xs rule: rev_induct) (auto simp: new_Set_snoc Set_add_def new_Set_def)

lemma distinct_new_Set: "distinct (new_Set xs)"
  by (induction xs rule: rev_induct) (auto simp: new_Set_snoc Set_add_def new_Set_def)

lemma new_Set_first_seen:
  "new_Set xs = map ((!) xs) (filter (\<lambda>i. xs ! i \<notin> set (take i xs)) [0..<length xs])"
proof (induction xs rule: rev_induct)
  case Nil
  show ?case by (simp add: new_Set_def)
next
  case (snoc x xs)
  let ?P = "\<lambda>i. (xs @ [x]) ! i \<notin> set (take i (xs @ [x]))"
  have f: "filter ?P [0..<length xs] = filter (\<lambda>i. xs ! i \<notin> set (take i xs)) [0..<length xs]"
    by (rule filter_cong) (simp_all add: nth_append)
  have m: "map ((!) (xs @ [x])) (filter (\<lambda>i. xs ! i \<notin> set (take i xs)) [0..<length xs])
           = map ((!) xs) (filter (\<lambda>i. xs ! i \<notin> set (take i xs)) [0..<length xs])"
    by (rule map_cong) (simp_all add: nth_append)
  have l: "filter ?P [length xs] = (if x \<in> set xs then [] else [length xs])"
    by simp
  have "[0..<length (xs @ [x])] = [0..<length xs] @ [length xs]"
    by simp
  then have "map ((!) (xs @ [x])) (filter ?P [0..<length (xs @ [x])])
             = map ((!) (xs @ [x])) (filter ?P [0..<length xs])
               @ map ((!) (xs @ [x])) (filter ?P [length xs])"
    by (simp only: filter_append map_append)
  also have "\<dots> = new_Set xs @ (if x \<in> set xs then [] else [x])"
    unfolding f m l by (simp add: snoc.IH [symmetric])
  also have "\<dots> = new_Set (xs @ [x])"
    by (simp add: new_Set_snoc Set_add_def set_new_Set)
  finally show ?case by (rule sym)
qed

text \<open>
  Claim C9.  \<open>categories\<close> is \<open>''all''\<close> followed by the category values of the catalog,
  each exactly once, in the order of their first occurrence: the category of the product
  at index \<open>i\<close> is listed when no earlier product has it.
\<close>

theorem categories_first_seen:
  "\<exists>ds. categories C = ''all'' # ds
        \<and> distinct ds
        \<and> set ds = category ` set C
        \<and> ds = map (\<lambda>i. category (C ! i))
                 (filter (\<lambda>i. category (C ! i) \<notin> category ` set (take i C)) [0..<length C])"
proof -
  let ?cs = "map category C"
  have f: "filter (\<lambda>i. ?cs ! i \<notin> set (take i ?cs)) [0..<length C]
           = filter (\<lambda>i. category (C ! i) \<notin> category ` set (take i C)) [0..<length C]"
    by (rule filter_cong) (simp_all add: take_map)
  have m: "map ((!) ?cs) (filter (\<lambda>i. category (C ! i) \<notin> category ` set (take i C)) [0..<length C])
           = map (\<lambda>i. category (C ! i))
               (filter (\<lambda>i. category (C ! i) \<notin> category ` set (take i C)) [0..<length C])"
    by (rule map_cong) simp_all
  have "new_Set ?cs = map (\<lambda>i. category (C ! i))
          (filter (\<lambda>i. category (C ! i) \<notin> category ` set (take i C)) [0..<length C])"
    using new_Set_first_seen [of ?cs] by (simp add: f m)
  moreover have "distinct (new_Set ?cs)"
    by (rule distinct_new_Set)
  moreover have "set (new_Set ?cs) = category ` set C"
    by (simp add: set_new_Set)
  ultimately show ?thesis
    by (simp add: categories_def)
qed

section \<open>Startup\<close>

lemma lex_not_value:
  assumes "c \<notin> set ('' {[-0123456789tfn'' @ [CHR 0x22, CHR 0x09, CHR 0x0A, CHR 0x0D])"
  shows "lex Start (c # cs) = None
         \<or> (\<exists>t ts. lex Start (c # cs) = Some (t # ts) \<and> t \<in> {RBrace, RBracket, Colon, Comma})"
  using assms
  by (cases "lex Start cs")
    (auto simp: start_def is_ws_def is_digit_def punctuation_def literal_def)

lemma run_not_value:
  "t \<in> {RBrace, RBracket, Colon, Comma} \<Longrightarrow> run ExpValue [] (t # ts) = None"
  by (auto simp: begin_value_def)

lemma JSON_parse_not_value:
  assumes "c \<notin> set ('' {[-0123456789tfn'' @ [CHR 0x22, CHR 0x09, CHR 0x0A, CHR 0x0D])"
  shows "JSON_parse (c # cs) = Inl SyntaxError"
  using lex_not_value [OF assms, of cs] run_not_value
  by (auto simp: JSON_parse_def)

text \<open>
  Claim C6, as amended.  An absent key and an empty stored string give the empty cart.
  Every other stored text is handed to \<open>JSON.parse\<close> and the outcome is the initial cart
  or the failure of the initialiser: there is no fallback.  In particular every text
  whose first character cannot begin a JSON value (it is neither white space nor one of
  \<open>{\<close>, \<open>[\<close>, a double quote, \<open>-\<close>, a digit, \<open>t\<close>, \<open>f\<close>, \<open>n\<close>) makes the initialiser throw
  \<open>SyntaxError\<close>.
\<close>

theorem initialCart_cases:
  "initialCart None = Inr (JArray [])
   \<and> initialCart (Some []) = Inr (JArray [])
   \<and> (s \<noteq> [] \<longrightarrow> initialCart (Some s) = JSON_parse s)
   \<and> (s \<noteq> []
        \<and> hd s \<notin> set ('' {[-0123456789tfn'' @ [CHR 0x22, CHR 0x09, CHR 0x0A, CHR 0x0D])
       \<longrightarrow> initialCart (Some s) = Inl SyntaxError)"
proof -
  have "initialCart (Some s) = Inl SyntaxError"
    if "s \<noteq> []"
      and "hd s \<notin> set ('' {[-0123456789tfn'' @ [CHR 0x22, CHR 0x09, CHR 0x0A, CHR 0x0D])"
  proof -
    from that(1) obtain c cs where s: "s = c # cs"
      by (cases s) auto
    with that(2) have "JSON_parse (c # cs) = Inl SyntaxError"
      by (intro JSON_parse_not_value) simp
    then show ?thesis
      by (simp add: initialCart_def s)
  qed
  then show ?thesis
    by (simp add: initialCart_def)
qed

text \<open>The parser on stored texts.\<close>

lemma parse_empty_array: "JSON_parse ''[]'' = Inr (JArray [])"
  by code_simp

lemma parse_storedRedShirts:
  "JSON_parse storedRedShirts =
     Inr (JArray [JObject [(''id'', JNumber ''1''), (''title'', JString ''Red Shirt''),
                           (''category'', JString ''clothing''), (''price'', JNumber ''10''),
                           (''stock'', JNumber ''2''), (''thumbnail'', JString ''''),
                           (''quantity'', JNumber ''2'')]])"
  by code_simp

lemma parse_object_Object: "JSON_parse ''[object Object]'' = Inl SyntaxError"
  by code_simp

lemma parse_number: "JSON_parse ''5'' = Inr (JNumber ''5'')"
  by code_simp

text \<open>
  The absent key, the stored text \<open>[]\<close>, the stored text \<open>undefined\<close> and the stored cart
  of two Red Shirts.
\<close>

theorem initialCart_cases_witness:
  "initialCart None = Inr (JArray [])
   \<and> initialCart (Some ''[]'') = Inr (JArray [])
   \<and> initialCart (Some ''undefined'') = Inl SyntaxError
   \<and> initialCart (Some storedRedShirts) = JSON_parse storedRedShirts
   \<and> initialCart (Some storedRedShirts) \<noteq> Inl SyntaxError"
proof -
  have stored: "storedRedShirts \<noteq> []"
    by (simp add: storedRedShirts_def)
  with initialCart_cases [of storedRedShirts]
  have 1: "initialCart (Some storedRedShirts) = JSON_parse storedRedShirts"
    by blast
  then have 2: "initialCart (Some storedRedShirts) \<noteq> Inl SyntaxError"
    by (simp add: parse_storedRedShirts)
  from initialCart_cases [of "''[]''"] parse_empty_array
  have 3: "initialCart None = Inr (JArray []) \<and> initialCart (Some ''[]'') = Inr (JArray [])"
    by simp
  from initialCart_cases [of "''undefined''"]
  have 4: "initialCart (Some ''undefined'') = Inl SyntaxError"
    by auto
  from 1 2 3 4 show ?thesis
    by blast
qed

text \<open>
  Claim C6 as stated fails.  The stored text \<open>[object Object]\<close> (an object written without
  \<open>JSON.stringify\<close>) is not JSON: the initialiser throws and no cart results.  The stored
  text \<open>5\<close> is JSON and not a serialised cart: the initial cart is that number, not the
  empty cart.
\<close>

theorem initialCart_throws:
  "initialCart (Some ''[object Object]'') = Inl SyntaxError
   \<and> initialCart (Some ''[object Object]'') \<noteq> Inr (JArray [])
   \<and> initialCart (Some ''5'') = Inr (JNumber ''5'')
   \<and> initialCart (Some ''5'') \<noteq> Inr (JArray [])"
  using parse_object_Object parse_number
  by (simp add: initialCart_def)

end
